theory Spec2Isabelle
  imports Complex_Main "HOL-Library.Sublist"
begin

section \<open>Python values\<close>

text \<open>
  The values that cross the program's interfaces are JSON-shaped: the dictionaries built by
  \<^verbatim>\<open>Interacao.para_dict\<close>, the request payload of \<^verbatim>\<open>GeminiService\<close> and the decoded body
  of the upstream response. A \<^verbatim>\<open>dict\<close> is an association list in insertion order, read with
  \<open>map_of\<close>; a Python \<^verbatim>\<open>float\<close> is carried as a \<open>real\<close> (the program never computes with
  one, it only passes it on).
\<close>

datatype json =
    JNull
  | JBool bool
  | JInt int
  | JFloat real
  | JStr string
  | JArr "json list"
  | JObj "(string \<times> json) list"

text \<open>Reading a field of a dictionary; \<open>None\<close> when the value is no dictionary or has no such key.\<close>

fun campo :: "string \<Rightarrow> json \<Rightarrow> json option" where
  "campo k (JObj kvs) = map_of kvs k"
| "campo k _ = None"

section \<open>models.py\<close>

subsection \<open>The timestamp and its rendering\<close>

text \<open>
  \<^verbatim>\<open>datetime.now()\<close> is an input of the constructor. \<^verbatim>\<open>strftime("%d/%m/%Y %H:%M:%S")\<close> pads
  day, month, hour, minute and second to two digits and prints the year as a decimal numeral.
\<close>

record datetime =
  ano :: nat
  mes :: nat
  dia :: nat
  hora :: nat
  minuto :: nat
  segundo :: nat
  microssegundo :: nat

definition digito :: "nat \<Rightarrow> char" where
  "digito n = char_of (48 + n mod 10)"

fun decimal :: "nat \<Rightarrow> string" where
  "decimal n = (if n < 10 then [digito n] else decimal (n div 10) @ [digito n])"

definition zfill :: "nat \<Rightarrow> string \<Rightarrow> string" where
  "zfill w s = replicate (w - length s) (CHR ''0'') @ s"

definition strftime :: "datetime \<Rightarrow> string" where
  "strftime t =
     zfill 2 (decimal (dia t)) @ ''/'' @ zfill 2 (decimal (mes t)) @ ''/'' @ decimal (ano t)
     @ '' '' @ zfill 2 (decimal (hora t)) @ '':'' @ zfill 2 (decimal (minuto t))
     @ '':'' @ zfill 2 (decimal (segundo t))"

subsection \<open>Interacao\<close>

record interacao =
  id_interacao :: int
  usuario_input :: string
  ia_resposta :: string
  timestamp :: datetime
  categoria :: string

text \<open>
  Python's \<^verbatim>\<open>categoria or "geral"\<close>: the left operand when it is truthy, the right one when it
  is \<^verbatim>\<open>None\<close> or the empty string.
\<close>

definition ou_padrao :: "string option \<Rightarrow> string \<Rightarrow> string" where
  "ou_padrao x d = (case x of None \<Rightarrow> d | Some s \<Rightarrow> if s = [] then d else s)"

text \<open>
  \<^verbatim>\<open>Interacao.__init__\<close>. The class attribute \<^verbatim>\<open>Interacao._contador\<close> is the state: the
  constructor takes its value and returns the new object with the incremented counter.
  The clock reading \<open>agora\<close> is what \<^verbatim>\<open>datetime.now()\<close> returns during the call.
\<close>

definition Interacao_init ::
  "string \<Rightarrow> string \<Rightarrow> string option \<Rightarrow> datetime \<Rightarrow> int \<Rightarrow> interacao \<times> int" where
  "Interacao_init u r cat agora contador =
     (let contador' = contador + 1 in
      (\<lparr>id_interacao = contador', usuario_input = u, ia_resposta = r,
        timestamp = agora, categoria = ou_padrao cat ''geral''\<rparr>, contador'))"

definition para_dict :: "interacao \<Rightarrow> json" where
  "para_dict i = JObj
     [(''id'', JInt (id_interacao i)),
      (''usuario_input'', JStr (usuario_input i)),
      (''ia_resposta'', JStr (ia_resposta i)),
      (''timestamp'', JStr (strftime (timestamp i))),
      (''categoria'', JStr (categoria i))]"

subsection \<open>HistoricoInteracoes\<close>

record historico =
  interacoes :: "interacao list"
  limite :: int

definition HistoricoInteracoes_init :: "int \<Rightarrow> historico" where
  "HistoricoInteracoes_init cap = \<lparr>interacoes = [], limite = cap\<rparr>"

text \<open>
  \<^verbatim>\<open>adicionar\<close>: append, then one \<^verbatim>\<open>pop(0)\<close> when the length is above the limit. The list is
  never empty at the \<^verbatim>\<open>pop(0)\<close>, which therefore cannot raise; \<open>tl\<close> removes the first entry.
\<close>

definition adicionar :: "interacao \<Rightarrow> historico \<Rightarrow> historico" where
  "adicionar i h =
     (let xs = interacoes h @ [i] in
      if int (length xs) > limite h then h\<lparr>interacoes := tl xs\<rparr> else h\<lparr>interacoes := xs\<rparr>)"

text \<open>
  The reading methods return their value together with the object, which none of them
  assigns to.
\<close>

definition obter_todas :: "historico \<Rightarrow> json list \<times> historico" where
  "obter_todas h = ([para_dict i. i \<leftarrow> interacoes h], h)"

definition obter_por_categoria :: "string \<Rightarrow> historico \<Rightarrow> json list \<times> historico" where
  "obter_por_categoria c h = ([para_dict i. i \<leftarrow> interacoes h, categoria i = c], h)"

definition limpar :: "historico \<Rightarrow> historico" where
  "limpar h = h\<lparr>interacoes := []\<rparr>"

definition total :: "historico \<Rightarrow> nat \<times> historico" where
  "total h = (length (interacoes h), h)"

text \<open>A run of \<^verbatim>\<open>adicionar\<close> calls, in the order of the list.\<close>

definition adicionar_todas :: "interacao list \<Rightarrow> historico \<Rightarrow> historico" where
  "adicionar_todas xs h = foldl (\<lambda>h' i. adicionar i h') h xs"

subsection \<open>The objects of one process\<close>

text \<open>
  What one Python process does with the two classes: it constructs \<^verbatim>\<open>Interacao\<close> objects,
  which draws on the class counter, and calls the methods of one \<^verbatim>\<open>HistoricoInteracoes\<close>.
  \<open>criadas\<close> holds every object constructed so far with its current field values, in
  creation order; \<open>Adicionar n\<close> passes the \<open>n\<close>-th of them to \<^verbatim>\<open>adicionar\<close> (an object that
  was never constructed cannot be passed). \<^verbatim>\<open>__init__\<close> is the only place of the source that
  assigns to a field of an \<^verbatim>\<open>Interacao\<close>.
\<close>

record processo =
  contador :: int
  criadas :: "interacao list"
  hist :: historico

datatype evento =
    Criar string string "string option" datetime
  | Adicionar nat
  | Limpar
  | ObterTodas
  | ObterPorCategoria string
  | Total

fun passo :: "evento \<Rightarrow> processo \<Rightarrow> processo" where
  "passo (Criar u r cat agora) s =
     (case Interacao_init u r cat agora (contador s) of
        (i, c) \<Rightarrow> s\<lparr>contador := c, criadas := criadas s @ [i]\<rparr>)"
| "passo (Adicionar n) s =
     (if n < length (criadas s) then s\<lparr>hist := adicionar (criadas s ! n) (hist s)\<rparr> else s)"
| "passo Limpar s = s\<lparr>hist := limpar (hist s)\<rparr>"
| "passo ObterTodas s = s\<lparr>hist := snd (obter_todas (hist s))\<rparr>"
| "passo (ObterPorCategoria c) s = s\<lparr>hist := snd (obter_por_categoria c (hist s))\<rparr>"
| "passo Total s = s\<lparr>hist := snd (total (hist s))\<rparr>"

definition executar :: "evento list \<Rightarrow> processo \<Rightarrow> processo" where
  "executar evs s = foldl (\<lambda>s' e. passo e s') s evs"

text \<open>The process at its start: the counter is 0 (line 31), nothing has been constructed.\<close>

definition inicio :: "int \<Rightarrow> processo" where
  "inicio cap = \<lparr>contador = 0, criadas = [], hist = HistoricoInteracoes_init cap\<rparr>"

section \<open>gemini\_service.py\<close>

subsection \<open>Exceptions and error messages\<close>

text \<open>
  The Python exceptions that can travel through \<^verbatim>\<open>GeminiService\<close>. \<open>ConnectTimeout\<close> is
  kept apart because it inherits from both \<^verbatim>\<open>Timeout\<close> and \<^verbatim>\<open>ConnectionError\<close>;
  \<open>Timeout\<close> stands for every other timeout of the library. \<open>HTTPError\<close> carries the
  status code of the response it was raised for, \<open>KeyError\<close> the missing key.
\<close>

datatype excecao =
    ValueError
  | Timeout
  | ConnectTimeout
  | ConnectionError
  | HTTPError int
  | JSONDecodeError
  | KeyError json
  | IndexError
  | TypeError
  | OutraExcecao string

text \<open>
  \<^verbatim>\<open>gerar_conteudo\<close> raises \<^verbatim>\<open>Exception(message)\<close> in every handler; the handlers differ in
  the message only, and each message starts with a symbol of its own. One constructor
  stands for each message of the source, in the order of the handlers:
  \<^item> \<open>Erro_timeout\<close>: "A API demorou muito para responder (timeout). ..." (the specification's
    TimeoutError);
  \<^item> \<open>Erro_conexao\<close>: "Erro de conexao com a API. ..." (ConnectionError);
  \<^item> \<open>Erro_limite_requisicoes\<close>: "Voce excedeu o limite de requisicoes da API. ..."
    (RateLimitError);
  \<^item> \<open>Erro_api_key_invalida\<close>: "API key invalida! ..." (AuthError);
  \<^item> \<open>Erro_HTTP status e\<close>: "Erro HTTP \{status\}: \{str(e)\}" (UpstreamError);
  \<^item> \<open>Erro_formato_inesperado\<close>: "Resposta da API em formato inesperado. ..."
    (MalformedResponseError);
  \<^item> \<open>Erro_inesperado e\<close>: "Erro inesperado: \{str(e)\}" (the catch-all of the last handler).
\<close>

datatype erro =
    Erro_timeout
  | Erro_conexao
  | Erro_limite_requisicoes
  | Erro_api_key_invalida
  | Erro_HTTP int excecao
  | Erro_formato_inesperado
  | Erro_inesperado excecao

subsection \<open>Construction\<close>

record gemini_service =
  api_key :: string
  base_url :: string
  model :: string
  timeout :: int

text \<open>
  \<^verbatim>\<open>GeminiService.__init__\<close>; the argument is what \<^verbatim>\<open>os.getenv("GEMINI_API_KEY")\<close> returns.
  \<^verbatim>\<open>not self.api_key\<close> holds for \<^verbatim>\<open>None\<close> and for the empty string.
\<close>

definition GeminiService_init :: "string option \<Rightarrow> excecao + gemini_service" where
  "GeminiService_init env =
     (case env of
        None \<Rightarrow> Inl ValueError
      | Some k \<Rightarrow>
          if k = [] \<or> k = ''sua_api_key_aqui'' then Inl ValueError
          else Inr \<lparr>api_key = k,
                    base_url = ''https://generativelanguage.googleapis.com/v1beta/models'',
                    model = ''gemini-2.5-flash'',
                    timeout = 30\<rparr>)"

text \<open>
  The module level of \<^verbatim>\<open>main.py\<close> (lines 31 and 34), run once when the module is imported:
  an exception of the constructor ends the start-up, and the request handlers exist only
  afterwards.
\<close>

record app =
  gemini :: gemini_service
  historico_app :: historico

definition iniciar :: "string option \<Rightarrow> excecao + app" where
  "iniciar env =
     (case GeminiService_init env of
        Inl e \<Rightarrow> Inl e
      | Inr g \<Rightarrow> Inr \<lparr>gemini = g, historico_app = HistoricoInteracoes_init 50\<rparr>)"

subsection \<open>The request\<close>

record requisicao =
  url :: string
  params :: "(string \<times> string) list"
  corpo_json :: json
  headers :: "(string \<times> string) list"
  tempo_limite :: int

text \<open>
  Lines 88 to 101: the payload, and the \<^verbatim>\<open>if max_tokens:\<close> that adds the limit. An
  \<^verbatim>\<open>Optional[int]\<close> is truthy when it is neither \<^verbatim>\<open>None\<close> nor 0.
\<close>

definition montar_payload :: "string \<Rightarrow> real \<Rightarrow> int option \<Rightarrow> json" where
  "montar_payload prompt temperatura max_tokens =
     (let config = [(''temperature'', JFloat temperatura),
                    (''topK'', JInt 40),
                    (''topP'', JFloat 0.95)];
          config' = (case max_tokens of
                       None \<Rightarrow> config
                     | Some m \<Rightarrow> if m = 0 then config
                                else config @ [(''maxOutputTokens'', JInt m)])
      in JObj [(''contents'', JArr [JObj [(''parts'', JArr [JObj [(''text'', JStr prompt)]])]]),
               (''generationConfig'', JObj config')])"

definition montar_requisicao ::
  "gemini_service \<Rightarrow> string \<Rightarrow> real \<Rightarrow> int option \<Rightarrow> requisicao" where
  "montar_requisicao svc prompt temperatura max_tokens =
     \<lparr>url = base_url svc @ ''/'' @ model svc @ '':generateContent'',
      params = [(''key'', api_key svc)],
      corpo_json = montar_payload prompt temperatura max_tokens,
      headers = [(''Content-Type'', ''application/json'')],
      tempo_limite = timeout svc\<rparr>"

subsection \<open>The response\<close>

text \<open>
  What \<^verbatim>\<open>requests.post\<close> returns: the status code and the body, \<open>None\<close> when
  \<^verbatim>\<open>response.json()\<close> cannot decode it.
\<close>

record response =
  status_code :: int
  corpo :: "json option"

text \<open>\<^verbatim>\<open>Response.raise_for_status\<close> of the requests library: an error for 400 to 599 only.\<close>

definition raise_for_status :: "response \<Rightarrow> excecao + unit" where
  "raise_for_status r =
     (if 400 \<le> status_code r \<and> status_code r < 600 then Inl (HTTPError (status_code r))
      else Inr ())"

text \<open>
  Python's subscription on a decoded JSON value. \<^verbatim>\<open>x["k"]\<close> is a lookup on a dictionary and
  a \<^verbatim>\<open>TypeError\<close> on everything else. \<^verbatim>\<open>x[0]\<close> is the first element of a list or the first
  character of a string (\<^verbatim>\<open>IndexError\<close> when empty), a \<^verbatim>\<open>KeyError\<close> on a dictionary (the
  keys of a decoded object are strings) and a \<^verbatim>\<open>TypeError\<close> on everything else.
\<close>

fun subscr_chave :: "string \<Rightarrow> json \<Rightarrow> excecao + json" where
  "subscr_chave k (JObj kvs) =
     (case map_of kvs k of None \<Rightarrow> Inl (KeyError (JStr k)) | Some v \<Rightarrow> Inr v)"
| "subscr_chave k _ = Inl TypeError"

fun subscr_zero :: "json \<Rightarrow> excecao + json" where
  "subscr_zero (JArr []) = Inl IndexError"
| "subscr_zero (JArr (x # xs)) = Inr x"
| "subscr_zero (JStr []) = Inl IndexError"
| "subscr_zero (JStr (c # cs)) = Inr (JStr [c])"
| "subscr_zero (JObj kvs) = Inl (KeyError (JInt 0))"
| "subscr_zero _ = Inl TypeError"

definition entao :: "excecao + 'a \<Rightarrow> ('a \<Rightarrow> excecao + 'b) \<Rightarrow> excecao + 'b" where
  "entao m f = (case m of Inl e \<Rightarrow> Inl e | Inr x \<Rightarrow> f x)"

text \<open>Line 124: \<^verbatim>\<open>data["candidates"][0]["content"]["parts"][0]["text"]\<close>, left to right.\<close>

definition extrair_texto :: "json \<Rightarrow> excecao + json" where
  "extrair_texto data =
     entao (entao (entao (entao (entao (subscr_chave ''candidates'' data) subscr_zero)
       (subscr_chave ''content'')) (subscr_chave ''parts'')) subscr_zero) (subscr_chave ''text'')"

text \<open>
  The body of the \<^verbatim>\<open>try\<close> (lines 108 to 126). \<open>post\<close> is the network: what
  \<^verbatim>\<open>requests.post\<close> does with the request, a response or an exception.
\<close>

definition tentar ::
  "gemini_service \<Rightarrow> string \<Rightarrow> real \<Rightarrow> int option \<Rightarrow> (requisicao \<Rightarrow> excecao + response)
     \<Rightarrow> excecao + json" where
  "tentar svc prompt temperatura max_tokens post =
     entao (post (montar_requisicao svc prompt temperatura max_tokens)) (\<lambda>r.
     entao (raise_for_status r) (\<lambda>_.
     entao (case corpo r of None \<Rightarrow> Inl JSONDecodeError | Some data \<Rightarrow> Inr data)
       extrair_texto))"

text \<open>
  The \<^verbatim>\<open>except\<close> clauses (lines 128 to 161), first match first. The only \<^verbatim>\<open>HTTPError\<close> of
  the \<^verbatim>\<open>try\<close> body is the one of \<^verbatim>\<open>raise_for_status\<close>, so the status it carries is
  \<^verbatim>\<open>response.status_code\<close>.
\<close>

fun tratar :: "excecao \<Rightarrow> erro" where
  "tratar Timeout = Erro_timeout"
| "tratar ConnectTimeout = Erro_timeout"
| "tratar ConnectionError = Erro_conexao"
| "tratar (HTTPError status) =
     (if status = 429 then Erro_limite_requisicoes
      else if status = 401 then Erro_api_key_invalida
      else Erro_HTTP status (HTTPError status))"
| "tratar (KeyError k) = Erro_formato_inesperado"
| "tratar e = Erro_inesperado e"

definition gerar_conteudo ::
  "gemini_service \<Rightarrow> string \<Rightarrow> real \<Rightarrow> int option \<Rightarrow> (requisicao \<Rightarrow> excecao + response)
     \<Rightarrow> erro + json" where
  "gerar_conteudo svc prompt temperatura max_tokens post =
     (case tentar svc prompt temperatura max_tokens post of
        Inl e \<Rightarrow> Inl (tratar e)
      | Inr texto_gerado \<Rightarrow> Inr texto_gerado)"

subsection \<open>The specification's reading of a response\<close>

text \<open>
  "The first candidate's first text part": the body is an object whose \<open>candidates\<close> is a
  list, the first candidate an object whose \<open>content\<close> is an object whose \<open>parts\<close> is a
  list, and the first part an object with a \<open>text\<close>.
\<close>

definition primeiro_de :: "json \<Rightarrow> json option" where
  "primeiro_de v = (case v of JArr (x # xs) \<Rightarrow> Some x | _ \<Rightarrow> None)"

definition texto_primeiro_candidato :: "json \<Rightarrow> json option" where
  "texto_primeiro_candidato data =
     Option.bind (Option.bind (Option.bind (Option.bind (Option.bind
       (campo ''candidates'' data) primeiro_de) (campo ''content'')) (campo ''parts''))
       primeiro_de) (campo ''text'')"

subsection \<open>A stubbed network\<close>

text \<open>The upstream of a test: it answers every request with the same response.\<close>

definition upstream_fixo :: "response \<Rightarrow> requisicao \<Rightarrow> excecao + response" where
  "upstream_fixo r req = Inr r"

section \<open>Notions of the specification\<close>

text \<open>"The last \<open>k\<close> inserted interactions in insertion order".\<close>

definition ultimos :: "nat \<Rightarrow> 'a list \<Rightarrow> 'a list" where
  "ultimos k xs = drop (length xs - k) xs"

text \<open>The value found in a JSON document by following a path of keys.\<close>

fun caminho :: "string list \<Rightarrow> json \<Rightarrow> json option" where
  "caminho [] v = Some v"
| "caminho (k # ks) v = Option.bind (campo k v) (caminho ks)"

text \<open>
  "No credential is available": the environment variable is unset, or it is set and holds
  no character.
\<close>

definition credencial_ausente :: "string option \<Rightarrow> bool" where
  "credencial_ausente env = (env = None \<or> env = Some [])"

text \<open>
  The invariant of a process: the identifiers of the constructed objects grow strictly
  with the order of construction, none is above the counter, and the log holds constructed
  objects only.
\<close>

definition processo_ok :: "processo \<Rightarrow> bool" where
  "processo_ok s =
     (sorted_wrt (<) (map id_interacao (criadas s))
      \<and> (\<forall>i \<in> set (criadas s). id_interacao i \<le> contador s)
      \<and> set (interacoes (hist s)) \<subseteq> set (criadas s))"

section \<open>The bounded history\<close>

subsection \<open>Appending\<close>

lemma limite_adicionar: "limite (adicionar i h) = limite h"
  by (simp add: adicionar_def Let_def)

lemma limite_adicionar_todas: "limite (adicionar_todas xs h) = limite h"
  unfolding adicionar_todas_def
  by (induction xs arbitrary: h) (simp_all add: limite_adicionar)

lemma adicionar_todas_snoc:
  "adicionar_todas (xs @ [x]) h = adicionar x (adicionar_todas xs h)"
  by (simp add: adicionar_todas_def)

text \<open>
  What a new log holds after a run of appends, for every limit. \<open>nat cap\<close> is 0 for a
  negative limit: such a log drops every entry as soon as it is appended.
\<close>

lemma interacoes_adicionar_todas:
  "interacoes (adicionar_todas xs (HistoricoInteracoes_init cap)) = drop (length xs - nat cap) xs"
proof (induction xs rule: rev_induct)
  case Nil
  show ?case by (simp add: adicionar_todas_def HistoricoInteracoes_init_def)
next
  case (snoc x xs)
  let ?h = "adicionar_todas xs (HistoricoInteracoes_init cap)"
  have lim: "limite ?h = cap"
    by (simp add: limite_adicionar_todas HistoricoInteracoes_init_def)
  show ?case
  proof (cases "int (length xs) + 1 > cap")
    case True
    then have le: "nat cap \<le> length xs" by linarith
    show ?thesis
    proof (cases "nat cap = 0")
      case False
      with le have ne: "drop (length xs - nat cap) xs \<noteq> []" by simp
      from le have eq: "Suc (length xs) - nat cap = Suc (length xs - nat cap)" by linarith
      from True le ne show ?thesis
        by (simp add: adicionar_todas_snoc adicionar_def Let_def snoc.IH lim eq drop_Suc tl_drop)
    next
      case z: True
      with True show ?thesis
        by (simp add: adicionar_todas_snoc adicionar_def Let_def snoc.IH lim)
    qed
  next
    case False
    then have "length xs < nat cap" by linarith
    with False show ?thesis
      by (simp add: adicionar_todas_snoc adicionar_def Let_def snoc.IH lim)
  qed
qed

lemma limite_negativo_vazio:
  "cap < 0 \<Longrightarrow> interacoes (adicionar_todas xs (HistoricoInteracoes_init cap)) = []"
  by (simp add: interacoes_adicionar_todas)

lemma obter_todas_adicionar_todas:
  "fst (obter_todas (adicionar_todas xs (HistoricoInteracoes_init cap)))
     = map para_dict (drop (length xs - nat cap) xs)"
  by (simp add: obter_todas_def interacoes_adicionar_todas)

text \<open>
  The length of the log never exceeds a limit that is a count, whatever sequence of
  constructions and log calls the process runs.
\<close>

lemma tamanho_adicionar:
  "int (length (interacoes h)) \<le> limite h \<Longrightarrow>
     int (length (interacoes (adicionar i h))) \<le> limite h"
  by (simp add: adicionar_def Let_def)

lemma hist_limitado_passo:
  "limite (hist s) = cap \<and> int (length (interacoes (hist s))) \<le> cap \<Longrightarrow>
   limite (hist (passo e s)) = cap \<and> int (length (interacoes (hist (passo e s)))) \<le> cap"
  by (cases e)
    (auto simp: limite_adicionar tamanho_adicionar limpar_def obter_todas_def
      obter_por_categoria_def total_def split: prod.split)

lemma hist_limitado_executar:
  "limite (hist s) = cap \<and> int (length (interacoes (hist s))) \<le> cap \<Longrightarrow>
   limite (hist (executar evs s)) = cap
     \<and> int (length (interacoes (hist (executar evs s)))) \<le> cap"
  unfolding executar_def
proof (induction evs arbitrary: s)
  case Nil
  then show ?case by simp
next
  case (Cons e evs)
  from hist_limitado_passo [OF Cons.prems] have "limite (hist (passo e s)) = cap
     \<and> int (length (interacoes (hist (passo e s)))) \<le> cap" .
  from Cons.IH [OF this] show ?case by simp
qed

lemma hist_limitado:
  "0 \<le> cap \<Longrightarrow> int (length (interacoes (hist (executar evs (inicio cap))))) \<le> cap"
  using hist_limitado_executar [of "inicio cap" cap evs]
  by (simp add: inicio_def HistoricoInteracoes_init_def)

lemma para_dict_id: "para_dict a = para_dict b \<Longrightarrow> id_interacao a = id_interacao b"
  by (simp add: para_dict_def)

text \<open>
  Claim C1. After \<open>N\<close> calls of \<^verbatim>\<open>adicionar\<close> on a new log with limit \<open>C\<close> (a count, so
  \<open>0 \<le> C\<close>), \<^verbatim>\<open>total()\<close> is \<open>min N C\<close> and the log holds exactly the last \<open>min N C\<close>
  appended interactions, oldest first; \<^verbatim>\<open>obter_todas()\<close> returns their projections in that
  order. In particular, after 51 appends of interactions with pairwise different
  identifiers to a log with limit 50, the projection of the first one is not in
  \<^verbatim>\<open>obter_todas()\<close>, that of the 51st is, and \<^verbatim>\<open>total()\<close> is 50. Whatever a process
  does with its log (appends, clears, reads), the length of the log never exceeds \<open>C\<close>.
\<close>

theorem adicionar_fifo:
  "0 \<le> cap \<Longrightarrow>
     int (fst (total (adicionar_todas xs (HistoricoInteracoes_init cap))))
       = min (int (length xs)) cap
   \<and> interacoes (adicionar_todas xs (HistoricoInteracoes_init cap))
       = ultimos (nat (min (int (length xs)) cap)) xs
   \<and> fst (obter_todas (adicionar_todas xs (HistoricoInteracoes_init cap)))
       = map para_dict (ultimos (nat (min (int (length xs)) cap)) xs)
   \<and> (cap = 50 \<and> length xs = 51 \<and> distinct (map id_interacao xs) \<longrightarrow>
        para_dict (xs ! 0)
          \<notin> set (fst (obter_todas (adicionar_todas xs (HistoricoInteracoes_init cap))))
      \<and> para_dict (xs ! 50)
          \<in> set (fst (obter_todas (adicionar_todas xs (HistoricoInteracoes_init cap))))
      \<and> fst (total (adicionar_todas xs (HistoricoInteracoes_init cap))) = 50)
   \<and> int (length (interacoes (hist (executar evs (inicio cap))))) \<le> cap"
proof -
  assume cap: "0 \<le> cap"
  let ?h = "adicionar_todas xs (HistoricoInteracoes_init cap)"
  have k: "length xs - nat (min (int (length xs)) cap) = length xs - nat cap"
    using cap by linarith
  have c1: "int (fst (total ?h)) = min (int (length xs)) cap"
    using cap by (simp add: total_def interacoes_adicionar_todas)
  have c2: "interacoes ?h = ultimos (nat (min (int (length xs)) cap)) xs"
    by (simp only: ultimos_def k interacoes_adicionar_todas)
  have c3: "fst (obter_todas ?h) = map para_dict (ultimos (nat (min (int (length xs)) cap)) xs)"
    by (simp only: ultimos_def k obter_todas_adicionar_todas)
  have c4: "para_dict (xs ! 0) \<notin> set (fst (obter_todas ?h))
      \<and> para_dict (xs ! 50) \<in> set (fst (obter_todas ?h)) \<and> fst (total ?h) = 50"
    if a: "cap = 50" "length xs = 51" "distinct (map id_interacao xs)"
  proof -
    from a obtain x ys where xs: "xs = x # ys" and ly: "length ys = 50"
      by (cases xs) auto
    have todas: "fst (obter_todas ?h) = map para_dict ys"
      using a xs by (simp add: obter_todas_adicionar_todas)
    from a xs have "id_interacao x \<notin> id_interacao ` set ys" by simp
    then have fora: "para_dict x \<notin> para_dict ` set ys"
      using para_dict_id by (metis (no_types, lifting) image_iff)
    have "ys ! 49 \<in> set ys" using ly by simp
    then have dentro: "para_dict (xs ! 50) \<in> para_dict ` set ys"
      using xs by simp
    have "fst (total ?h) = 50"
      using a by (simp add: total_def interacoes_adicionar_todas)
    with fora dentro todas xs show ?thesis by simp
  qed
  have c5: "int (length (interacoes (hist (executar evs (inicio cap))))) \<le> cap"
    using cap by (rule hist_limitado)
  from c1 c2 c3 c4 c5 show ?thesis by blast
qed

text \<open>
  The scenario on 51 concrete interactions, numbered 1 to 51, appended to a log with
  limit 50.
\<close>

theorem adicionar_fifo_witness:
  "fst (total (adicionar_todas
      (map (\<lambda>n. \<lparr>id_interacao = int n, usuario_input = ''tema'', ia_resposta = ''piada'',
                  timestamp = \<lparr>ano = 2025, mes = 1, dia = 2, hora = 3, minuto = 4, segundo = 5,
                               microssegundo = 6\<rparr>,
                  categoria = ''piada''\<rparr>) [1..<52])
      (HistoricoInteracoes_init 50))) = 50
   \<and> para_dict ((map (\<lambda>n. \<lparr>id_interacao = int n, usuario_input = ''tema'', ia_resposta = ''piada'',
                  timestamp = \<lparr>ano = 2025, mes = 1, dia = 2, hora = 3, minuto = 4, segundo = 5,
                               microssegundo = 6\<rparr>,
                  categoria = ''piada''\<rparr>) [1..<52]) ! 0)
      \<notin> set (fst (obter_todas (adicionar_todas
      (map (\<lambda>n. \<lparr>id_interacao = int n, usuario_input = ''tema'', ia_resposta = ''piada'',
                  timestamp = \<lparr>ano = 2025, mes = 1, dia = 2, hora = 3, minuto = 4, segundo = 5,
                               microssegundo = 6\<rparr>,
                  categoria = ''piada''\<rparr>) [1..<52])
      (HistoricoInteracoes_init 50))))
   \<and> para_dict ((map (\<lambda>n. \<lparr>id_interacao = int n, usuario_input = ''tema'', ia_resposta = ''piada'',
                  timestamp = \<lparr>ano = 2025, mes = 1, dia = 2, hora = 3, minuto = 4, segundo = 5,
                               microssegundo = 6\<rparr>,
                  categoria = ''piada''\<rparr>) [1..<52]) ! 50)
      \<in> set (fst (obter_todas (adicionar_todas
      (map (\<lambda>n. \<lparr>id_interacao = int n, usuario_input = ''tema'', ia_resposta = ''piada'',
                  timestamp = \<lparr>ano = 2025, mes = 1, dia = 2, hora = 3, minuto = 4, segundo = 5,
                               microssegundo = 6\<rparr>,
                  categoria = ''piada''\<rparr>) [1..<52])
      (HistoricoInteracoes_init 50))))"
proof -
  let ?f = "\<lambda>n. \<lparr>id_interacao = int n, usuario_input = ''tema'', ia_resposta = ''piada'',
                  timestamp = \<lparr>ano = 2025, mes = 1, dia = 2, hora = 3, minuto = 4, segundo = 5,
                               microssegundo = 6\<rparr>,
                  categoria = ''piada''\<rparr>"
  have d: "distinct (map id_interacao (map ?f [1..<52]))"
    by (simp add: comp_def distinct_map inj_on_def)
  have l: "length (map ?f [1..<52]) = 51" by simp
  have "(0::int) \<le> 50" by simp
  from adicionar_fifo [OF this, of "map ?f [1..<52]"] d l show ?thesis
    by blast
qed

subsection \<open>Filtering and clearing\<close>

lemma compreensao_filtrada:
  "concat (map (\<lambda>i. if P i then [f i] else []) xs) = map f (filter P xs)"
  by (induction xs) simp_all

lemma categoria_para_dict: "campo ''categoria'' (para_dict i) = Some (JStr (categoria i))"
  by (simp add: para_dict_def)

text \<open>
  Claim C7. For every log and every category \<open>c\<close>, \<^verbatim>\<open>obter_por_categoria(c)\<close> returns the
  projections of the entries whose category is \<open>c\<close>, in the order of the log: it is
  \<^verbatim>\<open>obter_todas()\<close> filtered by the category field, hence a subsequence of it. The log is
  the same after the call.
\<close>

theorem obter_por_categoria_subsequencia:
  "obter_por_categoria c h
     = (filter (\<lambda>d. campo ''categoria'' d = Some (JStr c)) (fst (obter_todas h)), h)
   \<and> fst (obter_por_categoria c h)
     = map para_dict (filter (\<lambda>i. categoria i = c) (interacoes h))
   \<and> subseq (fst (obter_por_categoria c h)) (fst (obter_todas h))
   \<and> snd (obter_por_categoria c h) = h"
proof -
  have a: "fst (obter_por_categoria c h)
     = map para_dict (filter (\<lambda>i. categoria i = c) (interacoes h))"
    by (simp add: obter_por_categoria_def compreensao_filtrada)
  have b: "fst (obter_por_categoria c h)
     = filter (\<lambda>d. campo ''categoria'' d = Some (JStr c)) (fst (obter_todas h))"
    by (simp add: a obter_todas_def filter_map comp_def categoria_para_dict)
  have s: "snd (obter_por_categoria c h) = h"
    by (simp add: obter_por_categoria_def)
  have "subseq (fst (obter_por_categoria c h)) (fst (obter_todas h))"
    by (simp only: b subseq_filter_left)
  with a b s show ?thesis by (simp add: prod_eq_iff)
qed

text \<open>
  Claim C8. Whatever the log held, after \<^verbatim>\<open>limpar()\<close> the next \<^verbatim>\<open>total()\<close> returns 0 and
  the next \<^verbatim>\<open>obter_todas()\<close> returns the empty list; the limit is kept.
\<close>

theorem limpar_esvazia:
  "total (limpar h) = (0, limpar h) \<and> obter_todas (limpar h) = ([], limpar h)
   \<and> fst (total (limpar h)) = 0 \<and> fst (obter_todas (limpar h)) = []
   \<and> interacoes (limpar h) = [] \<and> limite (limpar h) = limite h"
  by (simp add: limpar_def total_def obter_todas_def)

section \<open>Interactions\<close>

lemma categoria_init: "categoria (fst (Interacao_init u r cat agora c)) \<noteq> []"
  by (simp add: Interacao_init_def Let_def ou_padrao_def split: option.split)

lemma criadas_passo:
  "list_all (\<lambda>i. categoria i \<noteq> []) (criadas s)
     \<Longrightarrow> list_all (\<lambda>i. categoria i \<noteq> []) (criadas (passo e s))"
  by (cases e) (simp_all add: Interacao_init_def Let_def ou_padrao_def split: option.split)

lemma criadas_executar:
  "list_all (\<lambda>i. categoria i \<noteq> []) (criadas s)
     \<Longrightarrow> list_all (\<lambda>i. categoria i \<noteq> []) (criadas (executar evs s))"
  unfolding executar_def
  by (induction evs arbitrary: s) (simp_all add: criadas_passo)

lemma set_adicionar: "set (interacoes (adicionar i h)) \<subseteq> insert i (set (interacoes h))"
proof -
  have "set (tl (interacoes h @ [i])) \<subseteq> set (interacoes h @ [i])"
    by (rule list.set_sel(2) [THEN subsetI]) simp
  then show ?thesis by (auto simp: adicionar_def Let_def)
qed

lemma processo_ok_passo: "processo_ok s \<Longrightarrow> processo_ok (passo e s)"
proof (cases e)
  case (Criar u r cat agora)
  assume "processo_ok s"
  then show ?thesis
    unfolding processo_ok_def Criar
    by (auto simp: Interacao_init_def Let_def sorted_wrt_append)
next
  case (Adicionar n)
  assume "processo_ok s"
  then show ?thesis
    unfolding processo_ok_def Adicionar
    using set_adicionar [of "criadas s ! n" "hist s"] nth_mem [of n "criadas s"]
    by auto
qed (auto simp: processo_ok_def limpar_def obter_todas_def obter_por_categoria_def total_def)

lemma processo_ok_executar: "processo_ok s \<Longrightarrow> processo_ok (executar evs s)"
  unfolding executar_def
  by (induction evs arbitrary: s) (simp_all add: processo_ok_passo)

lemma processo_ok_inicio: "processo_ok (inicio cap)"
  by (simp add: processo_ok_def inicio_def HistoricoInteracoes_init_def)

lemma prefix_passo: "prefix (criadas s) (criadas (passo e s))"
  by (cases e) (simp_all split: prod.split)

lemma prefix_executar: "prefix (criadas s) (criadas (executar evs s))"
  unfolding executar_def
proof (induction evs arbitrary: s)
  case Nil
  show ?case by simp
next
  case (Cons e evs)
  have "prefix (criadas s) (criadas (passo e s))" by (rule prefix_passo)
  also have "prefix (criadas (passo e s)) (criadas (foldl (\<lambda>s' e. passo e s') (passo e s) evs))"
    by (rule Cons.IH)
  finally show ?case by simp
qed

text \<open>
  Claim C9. In a process that has run any sequence of constructions and log calls from
  its start: the identifiers of the constructed interactions increase strictly with the
  order of construction, so no two are equal, also when the log has been cleared or has
  evicted entries in between; the entries of the log are constructed interactions; and
  whatever the process does next, the interactions constructed so far keep the identifier,
  texts, timestamp and category they were constructed with (they stay, unchanged, the
  first objects of the process). The constructor gives the counter plus one as identifier
  and stores it as the new counter.
\<close>

theorem ids_crescentes:
  "sorted_wrt (<) (map id_interacao (criadas (executar evs (inicio cap))))
   \<and> distinct (map id_interacao (criadas (executar evs (inicio cap))))
   \<and> set (interacoes (hist (executar evs (inicio cap))))
       \<subseteq> set (criadas (executar evs (inicio cap)))
   \<and> prefix (criadas (executar evs (inicio cap)))
       (criadas (executar evs' (executar evs (inicio cap))))
   \<and> id_interacao (fst (Interacao_init u r cat agora c)) = c + 1
   \<and> snd (Interacao_init u r cat agora c) = c + 1"
proof -
  have i: "processo_ok (executar evs (inicio cap))"
    by (rule processo_ok_executar) (rule processo_ok_inicio)
  then have s: "sorted_wrt (<) (map id_interacao (criadas (executar evs (inicio cap))))"
    by (simp add: processo_ok_def)
  then have d: "distinct (map id_interacao (criadas (executar evs (inicio cap))))"
    by (simp add: strict_sorted_iff)
  from i have m: "set (interacoes (hist (executar evs (inicio cap))))
      \<subseteq> set (criadas (executar evs (inicio cap)))"
    by (simp add: processo_ok_def)
  have p: "prefix (criadas (executar evs (inicio cap)))
      (criadas (executar evs' (executar evs (inicio cap))))"
    by (rule prefix_executar)
  have c: "id_interacao (fst (Interacao_init u r cat agora c)) = c + 1
     \<and> snd (Interacao_init u r cat agora c) = c + 1"
    by (simp add: Interacao_init_def Let_def)
  from s d m p c show ?thesis by blast
qed

text \<open>
  Claim C10. The constructor called with the empty string as category stores "geral",
  exactly as when called with no category; the category it stores is never the empty
  string, so no interaction constructed in a process has an empty category.
\<close>

theorem categoria_vazia_geral:
  "categoria (fst (Interacao_init u r (Some '''') agora c)) = ''geral''
   \<and> Interacao_init u r (Some '''') agora c = Interacao_init u r None agora c
   \<and> categoria (fst (Interacao_init u r cat agora c)) \<noteq> ''''
   \<and> list_all (\<lambda>i. categoria i \<noteq> '''') (criadas (executar evs (inicio cap)))"
proof -
  have "list_all (\<lambda>i. categoria i \<noteq> '''') (criadas (executar evs (inicio cap)))"
    by (rule criadas_executar) (simp add: inicio_def)
  then show ?thesis
    using categoria_init [of u r cat agora c]
    by (simp add: Interacao_init_def Let_def ou_padrao_def)
qed

section \<open>The client of the generative API\<close>

subsection \<open>Reading the response\<close>

lemma entao_Inr: "entao m f = Inr y \<longleftrightarrow> (\<exists>x. m = Inr x \<and> f x = Inr y)"
  by (cases m) (simp_all add: entao_def)

lemma subscr_chave_Inr: "subscr_chave k v = Inr x \<longleftrightarrow> campo k v = Some x"
  by (cases v) (simp_all split: option.split)

lemma primeiro_de_subscr_zero: "primeiro_de a = Some b \<Longrightarrow> subscr_zero a = Inr b"
  by (cases a rule: subscr_zero.cases) (simp_all add: primeiro_de_def)

lemma subscr_zero_primeiro_de:
  "subscr_zero a = Inr b \<Longrightarrow> campo k b = Some c \<Longrightarrow> primeiro_de a = Some b"
  by (cases a rule: subscr_zero.cases) (auto simp: primeiro_de_def)

text \<open>
  Line 124 succeeds exactly on the bodies that have a first candidate with a first text
  part, and then returns that text.
\<close>

lemma extrair_texto_Inr:
  "extrair_texto data = Inr t \<longleftrightarrow> texto_primeiro_candidato data = Some t"
proof
  assume "extrair_texto data = Inr t"
  then obtain a b c d e where
    "campo ''candidates'' data = Some a" "subscr_zero a = Inr b" "campo ''content'' b = Some c"
    "campo ''parts'' c = Some d" "subscr_zero d = Inr e" "campo ''text'' e = Some t"
    unfolding extrair_texto_def by (auto simp: entao_Inr subscr_chave_Inr)
  then show "texto_primeiro_candidato data = Some t"
    unfolding texto_primeiro_candidato_def
    by (simp add: subscr_zero_primeiro_de [of a b "''content''" c]
        subscr_zero_primeiro_de [of d e "''text''" t])
next
  assume "texto_primeiro_candidato data = Some t"
  then obtain a b c d e where
    "campo ''candidates'' data = Some a" "primeiro_de a = Some b" "campo ''content'' b = Some c"
    "campo ''parts'' c = Some d" "primeiro_de d = Some e" "campo ''text'' e = Some t"
    unfolding texto_primeiro_candidato_def by (auto simp: bind_eq_Some_conv)
  then show "extrair_texto data = Inr t"
    unfolding extrair_texto_def
    by (simp add: entao_def primeiro_de_subscr_zero subscr_chave_Inr [THEN iffD2])
qed

text \<open>
  Claim C2. When the upstream answers with a status from 200 to 299 and a body whose
  first candidate has a first text part, \<^verbatim>\<open>gerar_conteudo\<close> returns exactly that text.
\<close>

theorem gerar_conteudo_sucesso:
  "post (montar_requisicao svc prompt temperatura max_tokens) = Inr r \<Longrightarrow>
   200 \<le> status_code r \<Longrightarrow> status_code r < 300 \<Longrightarrow>
   corpo r = Some data \<Longrightarrow> texto_primeiro_candidato data = Some t \<Longrightarrow>
   gerar_conteudo svc prompt temperatura max_tokens post = Inr t"
  by (simp add: gerar_conteudo_def tentar_def entao_def raise_for_status_def
      extrair_texto_Inr [symmetric])

text \<open>
  The scenario: "tell me about cats" at temperature 0.9, against a stubbed upstream that
  answers 200 with one candidate whose text is "Cats rule.".
\<close>

theorem gerar_conteudo_sucesso_witness:
  "gerar_conteudo
     \<lparr>api_key = ''chave'', base_url = ''https://generativelanguage.googleapis.com/v1beta/models'',
      model = ''gemini-2.5-flash'', timeout = 30\<rparr>
     ''tell me about cats'' 0.9 None
     (upstream_fixo \<lparr>status_code = 200,
        corpo = Some (JObj [(''candidates'', JArr [JObj [(''content'',
                  JObj [(''parts'', JArr [JObj [(''text'', JStr ''Cats rule.'')]])])]])])\<rparr>)
   = Inr (JStr ''Cats rule.'')"
proof -
  let ?data = "JObj [(''candidates'', JArr [JObj [(''content'',
                 JObj [(''parts'', JArr [JObj [(''text'', JStr ''Cats rule.'')]])])]])]"
  let ?r = "\<lparr>status_code = 200, corpo = Some ?data\<rparr>"
  have t: "texto_primeiro_candidato ?data = Some (JStr ''Cats rule.'')"
    by (simp add: texto_primeiro_candidato_def primeiro_de_def)
  show ?thesis
    by (rule gerar_conteudo_sucesso [where r = ?r and data = ?data])
      (simp_all add: t upstream_fixo_def)
qed

subsection \<open>Malformed bodies\<close>

text \<open>A missing key anywhere on the path ends in the message of the \<^verbatim>\<open>KeyError\<close> handler.\<close>

lemma chave_ausente_formato_inesperado:
  "post (montar_requisicao svc prompt temperatura max_tokens) = Inr r \<Longrightarrow>
   \<not> (400 \<le> status_code r \<and> status_code r < 600) \<Longrightarrow>
   corpo r = Some data \<Longrightarrow> extrair_texto data = Inl (KeyError k) \<Longrightarrow>
   gerar_conteudo svc prompt temperatura max_tokens post = Inl Erro_formato_inesperado"
  by (auto simp: gerar_conteudo_def tentar_def entao_def raise_for_status_def)

lemma candidates_ausente:
  "map_of kvs ''candidates'' = None \<Longrightarrow>
   extrair_texto (JObj kvs) = Inl (KeyError (JStr ''candidates''))"
  by (simp add: extrair_texto_def entao_def)

text \<open>
  Claim C3. A 200 response whose body lacks the nested text field should end in the
  "formato inesperado" message. It does when a key is missing (the empty object). When
  \<open>candidates\<close> or \<open>parts\<close> is an empty list, \<^verbatim>\<open>[0]\<close> raises an \<^verbatim>\<open>IndexError\<close>, and
  when \<open>candidates\<close> is \<^verbatim>\<open>null\<close> it raises a \<^verbatim>\<open>TypeError\<close>; no handler before the last
  one catches either, and the call ends in the "Erro inesperado" message instead.
\<close>

theorem lista_vazia_erro_inesperado:
  "gerar_conteudo svc prompt temperatura max_tokens
     (upstream_fixo \<lparr>status_code = 200, corpo = Some (JObj [(''candidates'', JArr [])])\<rparr>)
     = Inl (Erro_inesperado IndexError)
   \<and> gerar_conteudo svc prompt temperatura max_tokens
     (upstream_fixo \<lparr>status_code = 200,
        corpo = Some (JObj [(''candidates'', JArr [JObj [(''content'',
                  JObj [(''parts'', JArr [])])]])])\<rparr>)
     = Inl (Erro_inesperado IndexError)
   \<and> gerar_conteudo svc prompt temperatura max_tokens
     (upstream_fixo \<lparr>status_code = 200, corpo = Some (JObj [(''candidates'', JNull)])\<rparr>)
     = Inl (Erro_inesperado TypeError)
   \<and> gerar_conteudo svc prompt temperatura max_tokens
     (upstream_fixo \<lparr>status_code = 200, corpo = Some (JObj [])\<rparr>)
     = Inl Erro_formato_inesperado
   \<and> Erro_inesperado IndexError \<noteq> Erro_formato_inesperado
   \<and> Erro_inesperado TypeError \<noteq> Erro_formato_inesperado"
  by (simp add: gerar_conteudo_def tentar_def entao_def raise_for_status_def extrair_texto_def
      upstream_fixo_def)

subsection \<open>Status codes\<close>

text \<open>
  Claim C4, as the code has it. Status 429 ends in the rate-limit message and 401 in the
  invalid-key message; every other status from 400 to 599 ends in the "Erro HTTP" message
  with the status code; the three messages are pairwise different. A status outside 400
  to 599 is no error for \<^verbatim>\<open>raise_for_status\<close>: the body is then read as that of a success.
\<close>

theorem erros_por_status:
  "post (montar_requisicao svc prompt temperatura max_tokens) = Inr r \<Longrightarrow>
     (status_code r = 429 \<longrightarrow>
        gerar_conteudo svc prompt temperatura max_tokens post = Inl Erro_limite_requisicoes)
   \<and> (status_code r = 401 \<longrightarrow>
        gerar_conteudo svc prompt temperatura max_tokens post = Inl Erro_api_key_invalida)
   \<and> (400 \<le> status_code r \<and> status_code r < 600
        \<and> status_code r \<noteq> 429 \<and> status_code r \<noteq> 401 \<longrightarrow>
        gerar_conteudo svc prompt temperatura max_tokens post
          = Inl (Erro_HTTP (status_code r) (HTTPError (status_code r))))
   \<and> (\<not> (400 \<le> status_code r \<and> status_code r < 600) \<longrightarrow>
        gerar_conteudo svc prompt temperatura max_tokens post
          = (case corpo r of
               None \<Rightarrow> Inl (Erro_inesperado JSONDecodeError)
             | Some data \<Rightarrow>
                 (case extrair_texto data of Inl e \<Rightarrow> Inl (tratar e) | Inr t \<Rightarrow> Inr t)))
   \<and> Erro_limite_requisicoes \<noteq> Erro_api_key_invalida
   \<and> Erro_HTTP s e \<noteq> Erro_limite_requisicoes
   \<and> Erro_HTTP s e \<noteq> Erro_api_key_invalida"
  by (simp add: gerar_conteudo_def tentar_def entao_def raise_for_status_def split: option.split)

text \<open>The three kinds of status at 429, 401 and 503.\<close>

theorem erros_por_status_witness:
  "gerar_conteudo
     \<lparr>api_key = ''chave'', base_url = ''https://generativelanguage.googleapis.com/v1beta/models'',
      model = ''gemini-2.5-flash'', timeout = 30\<rparr> ''tema'' 0.9 None
     (upstream_fixo \<lparr>status_code = 429, corpo = None\<rparr>) = Inl Erro_limite_requisicoes
   \<and> gerar_conteudo
     \<lparr>api_key = ''chave'', base_url = ''https://generativelanguage.googleapis.com/v1beta/models'',
      model = ''gemini-2.5-flash'', timeout = 30\<rparr> ''tema'' 0.9 None
     (upstream_fixo \<lparr>status_code = 401, corpo = None\<rparr>) = Inl Erro_api_key_invalida
   \<and> gerar_conteudo
     \<lparr>api_key = ''chave'', base_url = ''https://generativelanguage.googleapis.com/v1beta/models'',
      model = ''gemini-2.5-flash'', timeout = 30\<rparr> ''tema'' 0.9 None
     (upstream_fixo \<lparr>status_code = 503, corpo = None\<rparr>) = Inl (Erro_HTTP 503 (HTTPError 503))"
proof -
  let ?svc = "\<lparr>api_key = ''chave'',
               base_url = ''https://generativelanguage.googleapis.com/v1beta/models'',
               model = ''gemini-2.5-flash'', timeout = 30\<rparr>"
  have a: "upstream_fixo \<lparr>status_code = c, corpo = None\<rparr> (montar_requisicao ?svc ''tema'' 0.9 None)
      = Inr \<lparr>status_code = c, corpo = None\<rparr>" for c :: int
    by (simp add: upstream_fixo_def)
  from erros_por_status [where post = "upstream_fixo \<lparr>status_code = 429, corpo = None\<rparr>", OF a]
    erros_por_status [where post = "upstream_fixo \<lparr>status_code = 401, corpo = None\<rparr>", OF a]
    erros_por_status [where post = "upstream_fixo \<lparr>status_code = 503, corpo = None\<rparr>", OF a]
  show ?thesis by simp
qed

text \<open>
  Two statuses that are not 2xx and do not end in the "Erro HTTP" message: 304 with a body
  that is no JSON ends in the "Erro inesperado" message, and 300 with a well-formed body
  returns its text.
\<close>

theorem status_3xx_counterexample:
  "gerar_conteudo
     \<lparr>api_key = ''chave'', base_url = ''https://generativelanguage.googleapis.com/v1beta/models'',
      model = ''gemini-2.5-flash'', timeout = 30\<rparr> ''tema'' 0.9 None
     (upstream_fixo \<lparr>status_code = 304, corpo = None\<rparr>) = Inl (Erro_inesperado JSONDecodeError)
   \<and> gerar_conteudo
     \<lparr>api_key = ''chave'', base_url = ''https://generativelanguage.googleapis.com/v1beta/models'',
      model = ''gemini-2.5-flash'', timeout = 30\<rparr> ''tema'' 0.9 None
     (upstream_fixo \<lparr>status_code = 300,
        corpo = Some (JObj [(''candidates'', JArr [JObj [(''content'',
                  JObj [(''parts'', JArr [JObj [(''text'', JStr ''Cats rule.'')]])])]])])\<rparr>)
     = Inr (JStr ''Cats rule.'')"
  by (simp add: gerar_conteudo_def tentar_def entao_def raise_for_status_def extrair_texto_def
      upstream_fixo_def)

subsection \<open>The payload\<close>

text \<open>
  The request that \<^verbatim>\<open>gerar_conteudo\<close> sends has \<open>maxOutputTokens\<close> in its
  \<open>generationConfig\<close> exactly when \<^verbatim>\<open>max_tokens\<close> is given and not 0, with the given value.
\<close>

lemma max_tokens_no_payload:
  "caminho [''generationConfig'', ''maxOutputTokens'']
       (corpo_json (montar_requisicao svc prompt temperatura max_tokens))
     = (case max_tokens of None \<Rightarrow> None | Some m \<Rightarrow> if m = 0 then None else Some (JInt m))"
  by (simp add: montar_requisicao_def montar_payload_def split: option.split)

text \<open>
  Claim C5. The field should be in the payload whenever the caller gives \<^verbatim>\<open>max_tokens\<close>.
  With \<^verbatim>\<open>max_tokens=0\<close> the test \<^verbatim>\<open>if max_tokens:\<close> fails and the payload carries no
  \<open>maxOutputTokens\<close>: its \<open>generationConfig\<close> is the one of a call without the argument.
\<close>

theorem max_tokens_zero_ausente:
  "caminho [''generationConfig'', ''maxOutputTokens''] (montar_payload prompt temperatura (Some 0))
     = None
   \<and> montar_payload prompt temperatura (Some 0) = montar_payload prompt temperatura None
   \<and> caminho [''generationConfig'', ''maxOutputTokens''] (montar_payload prompt temperatura (Some 1))
     = Some (JInt 1)"
  by (simp add: montar_payload_def)

subsection \<open>The credential\<close>

text \<open>
  Claim C6. Constructing the client raises \<^verbatim>\<open>ValueError\<close> exactly when no credential is
  available or the credential is the placeholder, and raises nothing else; a constructed
  client holds the configured credential. The application constructs the client once,
  at its start: it starts exactly when the construction succeeds, with that client.
\<close>

theorem credencial_validada:
  "(GeminiService_init env = Inl ValueError
      \<longleftrightarrow> credencial_ausente env \<or> env = Some ''sua_api_key_aqui'')
   \<and> (isl (GeminiService_init env) \<longleftrightarrow> GeminiService_init env = Inl ValueError)
   \<and> (case GeminiService_init env of Inl e \<Rightarrow> True | Inr g \<Rightarrow> env = Some (api_key g))
   \<and> (iniciar env = Inl ValueError
      \<longleftrightarrow> credencial_ausente env \<or> env = Some ''sua_api_key_aqui'')
   \<and> (case iniciar env of
        Inl e \<Rightarrow> e = ValueError
      | Inr a \<Rightarrow> GeminiService_init env = Inr (gemini a))"
  by (cases env) (simp_all add: GeminiService_init_def iniciar_def credencial_ausente_def)

end
